theory Spec2Isabelle
  imports Complex_Main
begin

section \<open>JavaScript values\<close>

text \<open>
  The adapter of \<^verbatim>\<open>services/aiService.js\<close> builds object literals, reads
  properties of a parsed JSON reply and tests them for truthiness. The values it handles
  are modelled as trees. A number is a finite rational, one of the two infinities, the
  negative zero or NaN; every finite double is a rational, so the type holds every number
  \<^verbatim>\<open>JSON.parse\<close> can produce. A string is a list of characters, each standing for
  one code unit. An object is the list of its own properties in insertion order, looked up
  by the first match.
\<close>

datatype jsnum = NaN | NegInf | NegZero | Fin rat | PosInf

datatype jsval =
    VUndefined
  | VNull
  | VBool bool
  | VNum jsnum
  | VStr string
  | VArr "jsval list"
  | VObj "(string \<times> jsval) list"

text \<open>
  What a call can throw. \<open>HttpFailure s\<close> is the \<^verbatim>\<open>Error\<close> whose message ends in
  \<^verbatim>\<open>request failed with status: s\<close>; \<open>InvalidFormat\<close> is the \<^verbatim>\<open>Error\<close> with the message
  \<^verbatim>\<open>Invalid response format from ... service\<close>; \<open>TypeError\<close> is raised by the
  runtime when a property of \<^verbatim>\<open>null\<close> or \<^verbatim>\<open>undefined\<close> is read or a method is
  called on something that has none; \<open>SyntaxError\<close> is the rejection of
  \<^verbatim>\<open>response.json()\<close> on a body that is not JSON; \<open>NetworkError\<close> is the rejection
  of \<^verbatim>\<open>fetch\<close> itself.
\<close>

datatype error = TypeError | SyntaxError | NetworkError | HttpFailure nat | InvalidFormat

text \<open>The property names the adapter reads, and the key each one stands for.\<close>

datatype pname = Role | Text | Candidates | Content | Parts | Choices | Message | Length | Idx0

fun prop_key :: "pname \<Rightarrow> string" where
  "prop_key Role = ''role''"
| "prop_key Text = ''text''"
| "prop_key Candidates = ''candidates''"
| "prop_key Content = ''content''"
| "prop_key Parts = ''parts''"
| "prop_key Choices = ''choices''"
| "prop_key Message = ''message''"
| "prop_key Length = ''length''"
| "prop_key Idx0 = ''0''"

text \<open>
  Reading \<^verbatim>\<open>v.p\<close> (or \<^verbatim>\<open>v[0]\<close>). On \<^verbatim>\<open>undefined\<close> and \<^verbatim>\<open>null\<close> the read
  throws. A boolean or a number has none of these properties. A string and an array have
  \<^verbatim>\<open>length\<close> and, when not empty, an element \<^verbatim>\<open>0\<close>. An object has what was
  stored under the key; none of the names above is inherited from a prototype.
\<close>

fun get_prop :: "jsval \<Rightarrow> pname \<Rightarrow> error + jsval" where
  "get_prop VUndefined p = Inl TypeError"
| "get_prop VNull p = Inl TypeError"
| "get_prop (VBool b) p = Inr VUndefined"
| "get_prop (VNum n) p = Inr VUndefined"
| "get_prop (VStr s) p =
     Inr (case p of
            Length \<Rightarrow> VNum (Fin (of_nat (length s)))
          | Idx0 \<Rightarrow> (case s of [] \<Rightarrow> VUndefined | c # _ \<Rightarrow> VStr [c])
          | _ \<Rightarrow> VUndefined)"
| "get_prop (VArr xs) p =
     Inr (case p of
            Length \<Rightarrow> VNum (Fin (of_nat (length xs)))
          | Idx0 \<Rightarrow> (case xs of [] \<Rightarrow> VUndefined | x # _ \<Rightarrow> x)
          | _ \<Rightarrow> VUndefined)"
| "get_prop (VObj kvs) p =
     Inr (case map_of kvs (prop_key p) of None \<Rightarrow> VUndefined | Some v \<Rightarrow> v)"

text \<open>A chain of reads such as \<^verbatim>\<open>result.candidates[0].content\<close>, left to right.\<close>

fun get_path :: "jsval \<Rightarrow> pname list \<Rightarrow> error + jsval" where
  "get_path v [] = Inr v"
| "get_path v (p # ps) = (case get_prop v p of Inl e \<Rightarrow> Inl e | Inr w \<Rightarrow> get_path w ps)"

text \<open>Truthiness, as \<^verbatim>\<open>&&\<close>, \<^verbatim>\<open>||\<close> and \<^verbatim>\<open>if\<close> test it.\<close>

fun num_truthy :: "jsnum \<Rightarrow> bool" where
  "num_truthy NaN = False"
| "num_truthy NegZero = False"
| "num_truthy (Fin q) = (q \<noteq> 0)"
| "num_truthy NegInf = True"
| "num_truthy PosInf = True"

fun truthy :: "jsval \<Rightarrow> bool" where
  "truthy VUndefined = False"
| "truthy VNull = False"
| "truthy (VBool b) = b"
| "truthy (VNum n) = num_truthy n"
| "truthy (VStr s) = (s \<noteq> [])"
| "truthy (VArr xs) = True"
| "truthy (VObj kvs) = True"

text \<open>
  The comparison \<^verbatim>\<open>v > 0\<close>. The operand is converted to a number first:
  \<^verbatim>\<open>undefined\<close> to NaN, \<^verbatim>\<open>null\<close> to 0, a boolean to 0 or 1. The conversion of a
  string, an array or an object parses or prints numerals; it belongs to the runtime and
  is taken as the parameter \<open>coerce\<close>, which says whether the converted operand is
  positive.
\<close>

fun num_gt0 :: "jsnum \<Rightarrow> bool" where
  "num_gt0 (Fin q) = (0 < q)"
| "num_gt0 PosInf = True"
| "num_gt0 NaN = False"
| "num_gt0 NegInf = False"
| "num_gt0 NegZero = False"

fun gt0 :: "(jsval \<Rightarrow> bool) \<Rightarrow> jsval \<Rightarrow> bool" where
  "gt0 coerce VUndefined = False"
| "gt0 coerce VNull = False"
| "gt0 coerce (VBool b) = b"
| "gt0 coerce (VNum n) = num_gt0 n"
| "gt0 coerce v = coerce v"

text \<open>
  A chain \<^verbatim>\<open>a && b && ...\<close> used as a condition: the conjuncts are evaluated from
  the left, the first falsy one decides, and a conjunct that throws is only reached when
  all before it were truthy.
\<close>

fun js_conj :: "(error + bool) list \<Rightarrow> error + bool" where
  "js_conj [] = Inr True"
| "js_conj (Inl e # cs) = Inl e"
| "js_conj (Inr False # cs) = Inr False"
| "js_conj (Inr True # cs) = js_conj cs"

definition truthy_at :: "jsval \<Rightarrow> pname list \<Rightarrow> error + bool" where
  "truthy_at v ps = (case get_path v ps of Inl e \<Rightarrow> Inl e | Inr w \<Rightarrow> Inr (truthy w))"

definition gt0_at :: "(jsval \<Rightarrow> bool) \<Rightarrow> jsval \<Rightarrow> pname list \<Rightarrow> error + bool" where
  "gt0_at coerce v ps = (case get_path v ps of Inl e \<Rightarrow> Inl e | Inr w \<Rightarrow> Inr (gt0 coerce w))"

text \<open>\<^verbatim>\<open>Array.prototype.map\<close> with a callback that may throw: the first throw ends it.\<close>

fun map_err :: "('a \<Rightarrow> error + 'b) \<Rightarrow> 'a list \<Rightarrow> error + 'b list" where
  "map_err f [] = Inr []"
| "map_err f (x # xs) =
     (case f x of
        Inl e \<Rightarrow> Inl e
      | Inr y \<Rightarrow> (case map_err f xs of Inl e \<Rightarrow> Inl e | Inr ys \<Rightarrow> Inr (y # ys)))"

section \<open>The store of arrays\<close>

text \<open>
  The arrays the adapter calls methods on (\<^verbatim>\<open>chatHistory\<close>, \<^verbatim>\<open>apiChatHistory\<close>,
  \<^verbatim>\<open>payloadContents\<close>, \<^verbatim>\<open>messages\<close>) are mutable and may alias, so they live in a
  store: an address is an index into the list of all arrays allocated so far. Creating an
  array appends it to the store; \<^verbatim>\<open>push\<close> extends the array at an address in place.
  The adapter assigns to no property of any object, so the elements are plain values.
\<close>

type_synonym addr = nat
type_synonym heap = "jsval list list"

definition alloc :: "heap \<Rightarrow> jsval list \<Rightarrow> addr \<times> heap" where
  "alloc h xs = (length h, h @ [xs])"

definition push :: "heap \<Rightarrow> addr \<Rightarrow> jsval \<Rightarrow> heap" where
  "push h a v = h[a := h ! a @ [v]]"

section \<open>The caller's messages\<close>

text \<open>
  \<^verbatim>\<open>App.js\<close> appends \<^verbatim>\<open>{ role: 'user', text: userInput }\<close> for the user and
  \<^verbatim>\<open>{ role: 'model', text: ..., model: aiModel }\<close> for the agent.
\<close>

record msg =
  msg_role :: string
  msg_text :: string
  msg_model :: "string option"

definition js_msg :: "msg \<Rightarrow> jsval" where
  "js_msg m =
     VObj ([(''role'', VStr (msg_role m)), (''text'', VStr (msg_text m))]
           @ (case msg_model m of None \<Rightarrow> [] | Some x \<Rightarrow> [(''model'', VStr x)]))"

section \<open>The network\<close>

text \<open>
  A request as handed to \<^verbatim>\<open>fetch\<close>; \<open>req_body\<close> is the value given to
  \<^verbatim>\<open>JSON.stringify\<close>. A response carries its status and what \<^verbatim>\<open>response.json()\<close>
  yields; \<^verbatim>\<open>response.ok\<close> holds for the statuses 200 to 299.
\<close>

record request =
  req_url :: string
  req_method :: string
  req_headers :: "(string \<times> string) list"
  req_body :: jsval

record response =
  status :: nat
  json :: "error + jsval"

definition response_ok :: "response \<Rightarrow> bool" where
  "response_ok r = (200 \<le> status r \<and> status r \<le> 299)"

text \<open>
  The surroundings of a call: the two variables of \<^verbatim>\<open>process.env\<close>, the network
  (what \<^verbatim>\<open>fetch\<close> settles to for a request) and the runtime's numeric conversion of
  strings, arrays and objects.
\<close>

record env =
  REACT_APP_GEMINI_API_KEY :: "string option"
  REACT_APP_OPENAI_API_KEY :: "string option"
  fetch :: "request \<Rightarrow> error + response"
  coerce_gt0 :: "jsval \<Rightarrow> bool"

text \<open>\<^verbatim>\<open>process.env.X || ""\<close>: an unset or empty variable gives the empty string.\<close>

definition key_or_empty :: "string option \<Rightarrow> string" where
  "key_or_empty k = (case k of None \<Rightarrow> [] | Some s \<Rightarrow> (if s \<noteq> [] then s else []))"

text \<open>
  What a call leaves behind: the store, the requests handed to \<^verbatim>\<open>fetch\<close>, and the
  value the promise resolves to or the error it rejects with.
\<close>

record outcome =
  heap_after :: heap
  sent :: "request list"
  settled :: "error + jsval"

section \<open>getAIResponse\<close>

definition gemini_persona :: string where
  "gemini_persona = ''You are a helpful and patient tech support agent. Your goal is to assist the user in troubleshooting common technical issues. Provide clear, step-by-step instructions and ask clarifying questions when needed. Keep your responses professional and focused on problem-solving. This is for training purposes, so be thorough in your explanations. Start by asking the user what problem they are experiencing.''"

text \<open>The callback of \<^verbatim>\<open>chatHistory.map\<close>.\<close>

definition gemini_turn :: "jsval \<Rightarrow> error + jsval" where
  "gemini_turn m =
     (case get_prop m Role of
        Inl e \<Rightarrow> Inl e
      | Inr r \<Rightarrow>
          (case get_prop m Text of
             Inl e \<Rightarrow> Inl e
           | Inr t \<Rightarrow>
               Inr (VObj [(''role'', VStr (if r = VStr ''user'' then ''user'' else ''model'')),
                          (''parts'', VArr [VObj [(''text'', t)]])])))"

definition user_turn :: "string \<Rightarrow> jsval" where
  "user_turn userInput = VObj [(''role'', VStr ''user''), (''parts'', VArr [VObj [(''text'', VStr userInput)]])]"

definition initialPrompt :: jsval where
  "initialPrompt = VObj [(''role'', VStr ''user''), (''parts'', VArr [VObj [(''text'', VStr gemini_persona)]])]"

definition generationConfig :: jsval where
  "generationConfig =
     VObj [(''temperature'', VNum (Fin (7 / 10))),
           (''topK'', VNum (Fin 40)),
           (''topP'', VNum (Fin (95 / 100))),
           (''maxOutputTokens'', VNum (Fin 500))]"

text \<open>
  Lines 13 to 40: the payload. The result is the store after the arrays were built and the
  payload as it is serialised, with the contents array read from the store at that moment.
  A \<^verbatim>\<open>chatHistory\<close> that is no array has no \<^verbatim>\<open>map\<close>.
\<close>

definition gemini_payload :: "heap \<Rightarrow> addr \<Rightarrow> string \<Rightarrow> bool \<Rightarrow> heap \<times> (error + jsval)" where
  "gemini_payload h chatHistory userInput isFirstMessage =
     (if \<not> chatHistory < length h then (h, Inl TypeError)
      else
        case map_err gemini_turn (h ! chatHistory) of
          Inl e \<Rightarrow> (h, Inl e)
        | Inr ts \<Rightarrow>
            (let (apiChatHistory, h1) = alloc h ts;
                 h2 = push h1 apiChatHistory (user_turn userInput);
                 (payloadContents, h3) =
                   (if isFirstMessage then alloc h2 [initialPrompt, user_turn userInput]
                    else (apiChatHistory, h2))
             in (h3, Inr (VObj [(''contents'', VArr (h3 ! payloadContents)),
                                (''generationConfig'', generationConfig)]))))"

definition gemini_request :: "env \<Rightarrow> jsval \<Rightarrow> request" where
  "gemini_request e payload =
     \<lparr> req_url = ''https://generativelanguage.googleapis.com/v1beta/models/gemini-2.0-flash:generateContent?key=''
                   @ key_or_empty (REACT_APP_GEMINI_API_KEY e),
       req_method = ''POST'',
       req_headers = [(''Content-Type'', ''application/json'')],
       req_body = payload \<rparr>"

text \<open>Lines 59 to 63: the condition on the parsed reply.\<close>

definition gemini_guard :: "(jsval \<Rightarrow> bool) \<Rightarrow> jsval \<Rightarrow> error + bool" where
  "gemini_guard coerce result =
     js_conj [truthy_at result [Candidates],
              gt0_at coerce result [Candidates, Length],
              truthy_at result [Candidates, Idx0, Content],
              truthy_at result [Candidates, Idx0, Content, Parts],
              gt0_at coerce result [Candidates, Idx0, Content, Parts, Length]]"

text \<open>Lines 53 to 68: what is made of the settled \<^verbatim>\<open>fetch\<close>.\<close>

definition gemini_reply :: "(jsval \<Rightarrow> bool) \<Rightarrow> error + response \<Rightarrow> error + jsval" where
  "gemini_reply coerce fetched =
     (case fetched of
        Inl e \<Rightarrow> Inl e
      | Inr r \<Rightarrow>
          if \<not> response_ok r then Inl (HttpFailure (status r))
          else
            (case json r of
               Inl e \<Rightarrow> Inl e
             | Inr result \<Rightarrow>
                 (case gemini_guard coerce result of
                    Inl e \<Rightarrow> Inl e
                  | Inr True \<Rightarrow> get_path result [Candidates, Idx0, Content, Parts, Idx0, Text]
                  | Inr False \<Rightarrow> Inl InvalidFormat)))"

text \<open>
  The whole function. The \<^verbatim>\<open>catch\<close> logs the error and throws it again, so every
  error reaches the caller as it was raised.
\<close>

definition getAIResponse :: "env \<Rightarrow> heap \<Rightarrow> addr \<Rightarrow> string \<Rightarrow> bool \<Rightarrow> outcome" where
  "getAIResponse e h chatHistory userInput isFirstMessage =
     (case gemini_payload h chatHistory userInput isFirstMessage of
        (h', Inl err) \<Rightarrow> \<lparr> heap_after = h', sent = [], settled = Inl err \<rparr>
      | (h', Inr payload) \<Rightarrow>
          (let rq = gemini_request e payload
           in \<lparr> heap_after = h', sent = [rq],
                settled = gemini_reply (coerce_gt0 e) (fetch e rq) \<rparr>))"

section \<open>getOpenAIResponse\<close>

definition openai_persona :: string where
  "openai_persona = ''You are a helpful and patient tech support agent. Your goal is to assist the user in troubleshooting common technical issues. Provide clear, step-by-step instructions and ask clarifying questions when needed. Keep your responses professional and focused on problem-solving.''"

definition openai_turn :: "jsval \<Rightarrow> error + jsval" where
  "openai_turn m =
     (case get_prop m Role of
        Inl e \<Rightarrow> Inl e
      | Inr r \<Rightarrow>
          (case get_prop m Text of
             Inl e \<Rightarrow> Inl e
           | Inr t \<Rightarrow>
               Inr (VObj [(''role'', VStr (if r = VStr ''model'' then ''assistant'' else ''user'')),
                          (''content'', t)])))"

definition system_message :: jsval where
  "system_message = VObj [(''role'', VStr ''system''), (''content'', VStr openai_persona)]"

definition user_message :: "string \<Rightarrow> jsval" where
  "user_message userInput = VObj [(''role'', VStr ''user''), (''content'', VStr userInput)]"

text \<open>
  Lines 84 to 113: the array literal spreads a freshly mapped array between the system
  message and the new user message; the body is built from it.
\<close>

definition openai_payload :: "heap \<Rightarrow> addr \<Rightarrow> string \<Rightarrow> heap \<times> (error + jsval)" where
  "openai_payload h chatHistory userInput =
     (if \<not> chatHistory < length h then (h, Inl TypeError)
      else
        case map_err openai_turn (h ! chatHistory) of
          Inl e \<Rightarrow> (h, Inl e)
        | Inr ts \<Rightarrow>
            (let (mapped, h1) = alloc h ts;
                 (messages, h2) = alloc h1 (system_message # (h1 ! mapped) @ [user_message userInput])
             in (h2, Inr (VObj [(''model'', VStr ''gpt-3.5-turbo''),
                                (''messages'', VArr (h2 ! messages)),
                                (''temperature'', VNum (Fin (7 / 10))),
                                (''max_tokens'', VNum (Fin 500))]))))"

definition openai_request :: "env \<Rightarrow> jsval \<Rightarrow> request" where
  "openai_request e body =
     \<lparr> req_url = ''https://api.openai.com/v1/chat/completions'',
       req_method = ''POST'',
       req_headers = [(''Content-Type'', ''application/json''),
                      (''Authorization'', ''Bearer '' @ key_or_empty (REACT_APP_OPENAI_API_KEY e))],
       req_body = body \<rparr>"

text \<open>Line 122: the condition on the parsed reply.\<close>

definition openai_guard :: "(jsval \<Rightarrow> bool) \<Rightarrow> jsval \<Rightarrow> error + bool" where
  "openai_guard coerce data =
     js_conj [truthy_at data [Choices],
              gt0_at coerce data [Choices, Length],
              truthy_at data [Choices, Idx0, Message]]"

definition openai_reply :: "(jsval \<Rightarrow> bool) \<Rightarrow> error + response \<Rightarrow> error + jsval" where
  "openai_reply coerce fetched =
     (case fetched of
        Inl e \<Rightarrow> Inl e
      | Inr r \<Rightarrow>
          if \<not> response_ok r then Inl (HttpFailure (status r))
          else
            (case json r of
               Inl e \<Rightarrow> Inl e
             | Inr data \<Rightarrow>
                 (case openai_guard coerce data of
                    Inl e \<Rightarrow> Inl e
                  | Inr True \<Rightarrow> get_path data [Choices, Idx0, Message, Content]
                  | Inr False \<Rightarrow> Inl InvalidFormat)))"

definition getOpenAIResponse :: "env \<Rightarrow> heap \<Rightarrow> addr \<Rightarrow> string \<Rightarrow> outcome" where
  "getOpenAIResponse e h chatHistory userInput =
     (case openai_payload h chatHistory userInput of
        (h', Inl err) \<Rightarrow> \<lparr> heap_after = h', sent = [], settled = Inl err \<rparr>
      | (h', Inr body) \<Rightarrow>
          (let rq = openai_request e body
           in \<lparr> heap_after = h', sent = [rq],
                settled = openai_reply (coerce_gt0 e) (fetch e rq) \<rparr>))"

section \<open>Observing a call\<close>

text \<open>
  The array a call sent under the key \<open>k\<close> of its request body, when it handed
  exactly one request to \<^verbatim>\<open>fetch\<close> and the body holds an array there.
\<close>

definition sent_list :: "string \<Rightarrow> outcome \<Rightarrow> jsval list option" where
  "sent_list k R =
     (case sent R of
        [rq] \<Rightarrow>
          (case req_body rq of
             VObj kvs \<Rightarrow> (case map_of kvs k of Some (VArr xs) \<Rightarrow> Some xs | _ \<Rightarrow> None)
           | _ \<Rightarrow> None)
      | _ \<Rightarrow> None)"

text \<open>
  Two surroundings for running the functions on examples: one whose network is down, and
  one whose network settles every request with the response \<open>r\<close>. Neither has a key
  set, and the numeric conversion of strings, arrays and objects never gives a positive
  number.
\<close>

definition offline :: env where
  "offline =
     \<lparr> REACT_APP_GEMINI_API_KEY = None, REACT_APP_OPENAI_API_KEY = None,
       fetch = (\<lambda>rq. Inl NetworkError), coerce_gt0 = (\<lambda>v. False) \<rparr>"

definition answering :: "response \<Rightarrow> env" where
  "answering r =
     \<lparr> REACT_APP_GEMINI_API_KEY = None, REACT_APP_OPENAI_API_KEY = None,
       fetch = (\<lambda>rq. Inr r), coerce_gt0 = (\<lambda>v. False) \<rparr>"

section \<open>Building the request\<close>

text \<open>A message of the caller has a role and a text, both strings.\<close>

lemma get_prop_js_msg:
  "get_prop (js_msg m) Role = Inr (VStr (msg_role m))"
  "get_prop (js_msg m) Text = Inr (VStr (msg_text m))"
  by (simp_all add: js_msg_def)

lemma gemini_turn_js_msg:
  "gemini_turn (js_msg m) =
     Inr (VObj [(''role'', VStr (if msg_role m = ''user'' then ''user'' else ''model'')),
                (''parts'', VArr [VObj [(''text'', VStr (msg_text m))]])])"
  by (simp add: gemini_turn_def get_prop_js_msg)

lemma openai_turn_js_msg:
  "openai_turn (js_msg m) =
     Inr (VObj [(''role'', VStr (if msg_role m = ''model'' then ''assistant'' else ''user'')),
                (''content'', VStr (msg_text m))])"
  by (simp add: openai_turn_def get_prop_js_msg)

lemma map_err_total:
  assumes "\<And>t. f (k t) = Inr (g t)"
  shows "map_err f (map k ts) = Inr (map g ts)"
  by (induction ts) (simp_all add: assms)

lemma map_err_gemini_msgs:
  "map_err gemini_turn (map js_msg ts) =
     Inr (map (\<lambda>m. VObj [(''role'', VStr (if msg_role m = ''user'' then ''user'' else ''model'')),
                            (''parts'', VArr [VObj [(''text'', VStr (msg_text m))]])]) ts)"
  by (rule map_err_total) (rule gemini_turn_js_msg)

lemma map_err_openai_msgs:
  "map_err openai_turn (map js_msg ts) =
     Inr (map (\<lambda>m. VObj [(''role'', VStr (if msg_role m = ''model'' then ''assistant'' else ''user'')),
                            (''content'', VStr (msg_text m))]) ts)"
  by (rule map_err_total) (rule openai_turn_js_msg)

text \<open>Pushing onto the array that was allocated last extends that array only.\<close>

lemma push_fresh: "push (h @ [xs]) (length h) v = h @ [xs @ [v]]"
  by (simp add: push_def)

text \<open>The store and the payload, for any history whose elements can all be mapped.\<close>

lemma gemini_payload_mapped:
  assumes "a < length h" and "map_err gemini_turn (h ! a) = Inr ts"
  shows "gemini_payload h a u f =
     (if f then (h @ [ts @ [user_turn u], [initialPrompt, user_turn u]],
                 Inr (VObj [(''contents'', VArr [initialPrompt, user_turn u]),
                            (''generationConfig'', generationConfig)]))
      else (h @ [ts @ [user_turn u]],
            Inr (VObj [(''contents'', VArr (ts @ [user_turn u])),
                       (''generationConfig'', generationConfig)])))"
  using assms by (simp add: gemini_payload_def alloc_def push_fresh nth_append)

lemma openai_payload_mapped:
  assumes "a < length h" and "map_err openai_turn (h ! a) = Inr ts"
  shows "openai_payload h a u =
     (h @ [ts, system_message # ts @ [user_message u]],
      Inr (VObj [(''model'', VStr ''gpt-3.5-turbo''),
                 (''messages'', VArr (system_message # ts @ [user_message u])),
                 (''temperature'', VNum (Fin (7 / 10))),
                 (''max_tokens'', VNum (Fin 500))]))"
  using assms by (simp add: openai_payload_def alloc_def nth_append)

lemma gemini_contents_mapped:
  assumes "a < length h" and "map_err gemini_turn (h ! a) = Inr ts"
  shows "sent_list ''contents'' (getAIResponse e h a u f) =
           Some (if f then [initialPrompt, user_turn u] else ts @ [user_turn u])"
  by (simp add: getAIResponse_def gemini_payload_mapped[OF assms] sent_list_def
      gemini_request_def Let_def)

lemma openai_messages_mapped:
  assumes "a < length h" and "map_err openai_turn (h ! a) = Inr ts"
  shows "sent_list ''messages'' (getOpenAIResponse e h a u) =
           Some (system_message # ts @ [user_message u])"
  by (simp add: getOpenAIResponse_def openai_payload_mapped[OF assms] sent_list_def
      openai_request_def Let_def)

text \<open>
  C1. On a first turn the Gemini adapter sends exactly two contents, whatever the
  history holds: its persona text as a turn of role \<^verbatim>\<open>user\<close>, then the user's text
  as a turn of role \<^verbatim>\<open>user\<close>. No turn of the history is sent.
\<close>

theorem gemini_first_turn_contents:
  assumes "a < length h" and "h ! a = map js_msg ts"
  shows "sent_list ''contents'' (getAIResponse e h a userText True) =
           Some [VObj [(''role'', VStr ''user''),
                       (''parts'', VArr [VObj [(''text'', VStr gemini_persona)]])],
                 VObj [(''role'', VStr ''user''),
                       (''parts'', VArr [VObj [(''text'', VStr userText)]])]]
         \<and> map_option length (sent_list ''contents'' (getAIResponse e h a userText True)) = Some 2"
proof -
  have "map_err gemini_turn (h ! a) =
          Inr (map (\<lambda>m. VObj [(''role'', VStr (if msg_role m = ''user'' then ''user'' else ''model'')),
                                 (''parts'', VArr [VObj [(''text'', VStr (msg_text m))]])]) ts)"
    unfolding assms(2) by (rule map_err_gemini_msgs)
  from gemini_contents_mapped[OF assms(1) this, of e userText True]
  show ?thesis by (simp add: initialPrompt_def user_turn_def)
qed

theorem gemini_first_turn_contents_witness:
  "sent_list ''contents''
     (getAIResponse offline
        [[js_msg \<lparr>msg_role = ''user'', msg_text = ''hi'', msg_model = None\<rparr>,
          js_msg \<lparr>msg_role = ''model'', msg_text = ''hello'', msg_model = Some ''gemini''\<rparr>]]
        0 ''my wifi is down'' True) =
     Some [VObj [(''role'', VStr ''user''),
                 (''parts'', VArr [VObj [(''text'', VStr gemini_persona)]])],
           VObj [(''role'', VStr ''user''),
                 (''parts'', VArr [VObj [(''text'', VStr ''my wifi is down'')]])]]"
  using gemini_first_turn_contents
    [of 0 "[[js_msg \<lparr>msg_role = ''user'', msg_text = ''hi'', msg_model = None\<rparr>,
             js_msg \<lparr>msg_role = ''model'', msg_text = ''hello'', msg_model = Some ''gemini''\<rparr>]]"
        "[\<lparr>msg_role = ''user'', msg_text = ''hi'', msg_model = None\<rparr>,
          \<lparr>msg_role = ''model'', msg_text = ''hello'', msg_model = Some ''gemini''\<rparr>]"
        offline "''my wifi is down''"]
  by simp

text \<open>
  C2. On a later turn the Gemini adapter sends one content for every message of the
  history, in the history's order, and then the user's text: \<open>length ts + 1\<close> contents.
  A message of role \<^verbatim>\<open>user\<close> is sent with role \<^verbatim>\<open>user\<close>, any other (the agent's
  role is \<^verbatim>\<open>model\<close>) with role \<^verbatim>\<open>model\<close>; its text is the only part.
\<close>

theorem gemini_later_turn_contents:
  assumes "a < length h" and "h ! a = map js_msg ts"
  shows "sent_list ''contents'' (getAIResponse e h a userText False) =
           Some (map (\<lambda>m. VObj [(''role'', VStr (if msg_role m = ''user'' then ''user'' else ''model'')),
                                  (''parts'', VArr [VObj [(''text'', VStr (msg_text m))]])]) ts
                 @ [VObj [(''role'', VStr ''user''),
                          (''parts'', VArr [VObj [(''text'', VStr userText)]])]])
         \<and> map_option length (sent_list ''contents'' (getAIResponse e h a userText False)) =
             Some (length ts + 1)"
proof -
  have "map_err gemini_turn (h ! a) =
          Inr (map (\<lambda>m. VObj [(''role'', VStr (if msg_role m = ''user'' then ''user'' else ''model'')),
                                 (''parts'', VArr [VObj [(''text'', VStr (msg_text m))]])]) ts)"
    unfolding assms(2) by (rule map_err_gemini_msgs)
  from gemini_contents_mapped[OF assms(1) this, of e userText False]
  show ?thesis by (simp add: user_turn_def)
qed

theorem gemini_later_turn_contents_witness:
  "sent_list ''contents''
     (getAIResponse offline
        [[js_msg \<lparr>msg_role = ''user'', msg_text = ''hi'', msg_model = None\<rparr>,
          js_msg \<lparr>msg_role = ''model'', msg_text = ''hello'', msg_model = Some ''gemini''\<rparr>]]
        0 ''it is slow'' False) =
     Some [VObj [(''role'', VStr ''user''), (''parts'', VArr [VObj [(''text'', VStr ''hi'')]])],
           VObj [(''role'', VStr ''model''), (''parts'', VArr [VObj [(''text'', VStr ''hello'')]])],
           VObj [(''role'', VStr ''user''), (''parts'', VArr [VObj [(''text'', VStr ''it is slow'')]])]]"
  using gemini_later_turn_contents
    [of 0 "[[js_msg \<lparr>msg_role = ''user'', msg_text = ''hi'', msg_model = None\<rparr>,
             js_msg \<lparr>msg_role = ''model'', msg_text = ''hello'', msg_model = Some ''gemini''\<rparr>]]"
        "[\<lparr>msg_role = ''user'', msg_text = ''hi'', msg_model = None\<rparr>,
          \<lparr>msg_role = ''model'', msg_text = ''hello'', msg_model = Some ''gemini''\<rparr>]"
        offline "''it is slow''"]
  by simp

text \<open>
  C3. The OpenAI adapter sends, on every call, its persona text as a message of role
  \<^verbatim>\<open>system\<close>, then one message for every message of the history, in the history's
  order, then the user's text as a message of role \<^verbatim>\<open>user\<close>: \<open>length ts + 2\<close>
  messages. A message of role \<^verbatim>\<open>model\<close> is sent with role \<^verbatim>\<open>assistant\<close>, any other
  with role \<^verbatim>\<open>user\<close>; its text is the content.
\<close>

theorem openai_messages:
  assumes "a < length h" and "h ! a = map js_msg ts"
  shows "sent_list ''messages'' (getOpenAIResponse e h a userText) =
           Some (VObj [(''role'', VStr ''system''), (''content'', VStr openai_persona)]
                 # map (\<lambda>m. VObj [(''role'', VStr (if msg_role m = ''model'' then ''assistant'' else ''user'')),
                                    (''content'', VStr (msg_text m))]) ts
                 @ [VObj [(''role'', VStr ''user''), (''content'', VStr userText)]])
         \<and> map_option length (sent_list ''messages'' (getOpenAIResponse e h a userText)) =
             Some (length ts + 2)"
proof -
  have "map_err openai_turn (h ! a) =
          Inr (map (\<lambda>m. VObj [(''role'', VStr (if msg_role m = ''model'' then ''assistant'' else ''user'')),
                                 (''content'', VStr (msg_text m))]) ts)"
    unfolding assms(2) by (rule map_err_openai_msgs)
  from openai_messages_mapped[OF assms(1) this, of e userText]
  show ?thesis by (simp add: system_message_def user_message_def)
qed

theorem openai_messages_witness:
  "sent_list ''messages''
     (getOpenAIResponse offline
        [[js_msg \<lparr>msg_role = ''user'', msg_text = ''hi'', msg_model = None\<rparr>,
          js_msg \<lparr>msg_role = ''model'', msg_text = ''hello'', msg_model = Some ''openai''\<rparr>]]
        0 ''it's slow'') =
     Some [VObj [(''role'', VStr ''system''), (''content'', VStr openai_persona)],
           VObj [(''role'', VStr ''user''), (''content'', VStr ''hi'')],
           VObj [(''role'', VStr ''assistant''), (''content'', VStr ''hello'')],
           VObj [(''role'', VStr ''user''), (''content'', VStr ''it's slow'')]]"
  using openai_messages
    [of 0 "[[js_msg \<lparr>msg_role = ''user'', msg_text = ''hi'', msg_model = None\<rparr>,
             js_msg \<lparr>msg_role = ''model'', msg_text = ''hello'', msg_model = Some ''openai''\<rparr>]]"
        "[\<lparr>msg_role = ''user'', msg_text = ''hi'', msg_model = None\<rparr>,
          \<lparr>msg_role = ''model'', msg_text = ''hello'', msg_model = Some ''openai''\<rparr>]"
        offline "''it's slow''"]
  by simp

section \<open>Reading the reply\<close>

text \<open>When one request was sent, the call settles as the reply to it is read.\<close>

lemma getAIResponse_settled:
  assumes "sent (getAIResponse e h a u f) = [rq]"
  shows "settled (getAIResponse e h a u f) = gemini_reply (coerce_gt0 e) (fetch e rq)"
  using assms
  by (auto simp: getAIResponse_def Let_def split: prod.splits sum.splits)

lemma getOpenAIResponse_settled:
  assumes "sent (getOpenAIResponse e h a u) = [rq]"
  shows "settled (getOpenAIResponse e h a u) = openai_reply (coerce_gt0 e) (fetch e rq)"
  using assms
  by (auto simp: getOpenAIResponse_def Let_def split: prod.splits sum.splits)

text \<open>With an empty history in a store of one array, each call sends one request.\<close>

lemma sent_empty_history:
  "sent (getAIResponse e [[]] 0 u f) = [hd (sent (getAIResponse e [[]] 0 u f))]"
  "sent (getOpenAIResponse e [[]] 0 u) = [hd (sent (getOpenAIResponse e [[]] 0 u))]"
  by (simp_all add: getAIResponse_def gemini_payload_def getOpenAIResponse_def
      openai_payload_def alloc_def push_def Let_def)

lemma fetch_answering: "fetch (answering r) rq = Inr r"
  by (simp add: answering_def)

lemma gemini_reply_not_ok:
  "\<not> response_ok r \<Longrightarrow> gemini_reply c (Inr r) = Inl (HttpFailure (status r))"
  by (simp add: gemini_reply_def)

lemma openai_reply_not_ok:
  "\<not> response_ok r \<Longrightarrow> openai_reply c (Inr r) = Inl (HttpFailure (status r))"
  by (simp add: openai_reply_def)

lemma gemini_reply_ok:
  assumes "response_ok r" and "json r = Inr b"
  shows "gemini_reply c (Inr r) =
     (case gemini_guard c b of
        Inl e \<Rightarrow> Inl e
      | Inr True \<Rightarrow> get_path b [Candidates, Idx0, Content, Parts, Idx0, Text]
      | Inr False \<Rightarrow> Inl InvalidFormat)"
  using assms by (simp add: gemini_reply_def)

lemma openai_reply_ok:
  assumes "response_ok r" and "json r = Inr b"
  shows "openai_reply c (Inr r) =
     (case openai_guard c b of
        Inl e \<Rightarrow> Inl e
      | Inr True \<Rightarrow> get_path b [Choices, Idx0, Message, Content]
      | Inr False \<Rightarrow> Inl InvalidFormat)"
  using assms by (simp add: openai_reply_def)

text \<open>Where the condition on the reply is false.\<close>

lemma gemini_guard_no_candidates:
  assumes "map_of kvs ''candidates'' = None \<or> map_of kvs ''candidates'' = Some (VArr [])"
  shows "gemini_guard c (VObj kvs) = Inr False"
  using assms by (auto simp: gemini_guard_def truthy_at_def gt0_at_def)

lemma openai_guard_no_choices:
  assumes "map_of kvs ''choices'' = None \<or> map_of kvs ''choices'' = Some (VArr [])"
  shows "openai_guard c (VObj kvs) = Inr False"
  using assms by (auto simp: openai_guard_def truthy_at_def gt0_at_def)

lemma gemini_guard_no_content:
  assumes "map_of kvs ''candidates'' = Some (VArr (VObj cand # cands))"
    and "map_of cand ''content'' = None"
  shows "gemini_guard c (VObj kvs) = Inr False"
  using assms by (auto simp: gemini_guard_def truthy_at_def gt0_at_def)

lemma gemini_guard_no_parts:
  assumes "map_of kvs ''candidates'' = Some (VArr (VObj cand # cands))"
    and "map_of cand ''content'' = Some (VObj ct)"
    and "map_of ct ''parts'' = None \<or> map_of ct ''parts'' = Some (VArr [])"
  shows "gemini_guard c (VObj kvs) = Inr False"
  using assms by (auto simp: gemini_guard_def truthy_at_def gt0_at_def)

lemma openai_guard_no_message:
  assumes "map_of kvs ''choices'' = Some (VArr (VObj choice # choices))"
    and "map_of choice ''message'' = None"
  shows "openai_guard c (VObj kvs) = Inr False"
  using assms by (auto simp: openai_guard_def truthy_at_def gt0_at_def)

text \<open>Where the condition is true, and what is returned then.\<close>

lemma gemini_guard_shape:
  assumes "map_of kvs ''candidates'' = Some (VArr (VObj cand # cands))"
    and "map_of cand ''content'' = Some (VObj ct)"
    and "map_of ct ''parts'' = Some (VArr (p # ps))"
  shows "gemini_guard c (VObj kvs) = Inr True"
    and "get_path (VObj kvs) [Candidates, Idx0, Content, Parts, Idx0, Text] = get_prop p Text"
  using assms by (auto simp: gemini_guard_def truthy_at_def gt0_at_def split: sum.splits)

lemma openai_guard_shape:
  assumes "map_of kvs ''choices'' = Some (VArr (VObj choice # choices))"
    and "map_of choice ''message'' = Some (VObj m)"
  shows "openai_guard c (VObj kvs) = Inr True"
    and "get_path (VObj kvs) [Choices, Idx0, Message, Content] = get_prop (VObj m) Content"
  using assms by (auto simp: openai_guard_def truthy_at_def gt0_at_def split: sum.splits)

lemma gemini_reply_invalid:
  assumes "response_ok r" and "json r = Inr b" and "gemini_guard c b = Inr False"
  shows "gemini_reply c (Inr r) = Inl InvalidFormat"
  unfolding gemini_reply_ok[OF assms(1,2)] assms(3) by simp

lemma openai_reply_invalid:
  assumes "response_ok r" and "json r = Inr b" and "openai_guard c b = Inr False"
  shows "openai_reply c (Inr r) = Inl InvalidFormat"
  unfolding openai_reply_ok[OF assms(1,2)] assms(3) by simp

lemma gemini_reply_text:
  assumes "response_ok r" and "json r = Inr (VObj kvs)"
    and "map_of kvs ''candidates'' = Some (VArr (VObj cand # cands))"
    and "map_of cand ''content'' = Some (VObj ct)"
    and "map_of ct ''parts'' = Some (VArr (VObj p # ps))"
    and "map_of p ''text'' = Some t"
  shows "gemini_reply c (Inr r) = Inr t"
  unfolding gemini_reply_ok[OF assms(1,2)] gemini_guard_shape[OF assms(3,4,5)]
  using assms(6) by simp

lemma openai_reply_text:
  assumes "response_ok r" and "json r = Inr (VObj kvs)"
    and "map_of kvs ''choices'' = Some (VArr (VObj choice # choices))"
    and "map_of choice ''message'' = Some (VObj m)"
    and "map_of m ''content'' = Some t"
  shows "openai_reply c (Inr r) = Inr t"
  unfolding openai_reply_ok[OF assms(1,2)] openai_guard_shape[OF assms(3,4)]
  using assms(5) by simp

text \<open>
  A text that is absent is not looked for: the condition ends at the list of parts (at
  the message, for OpenAI), and the call resolves with \<^verbatim>\<open>undefined\<close>.
\<close>

lemma gemini_reply_no_text:
  assumes "response_ok r" and "json r = Inr (VObj kvs)"
    and "map_of kvs ''candidates'' = Some (VArr (VObj cand # cands))"
    and "map_of cand ''content'' = Some (VObj ct)"
    and "map_of ct ''parts'' = Some (VArr (VObj p # ps))"
    and "map_of p ''text'' = None"
  shows "gemini_reply c (Inr r) = Inr VUndefined"
  unfolding gemini_reply_ok[OF assms(1,2)] gemini_guard_shape[OF assms(3,4,5)]
  using assms(6) by simp

lemma openai_reply_no_content:
  assumes "response_ok r" and "json r = Inr (VObj kvs)"
    and "map_of kvs ''choices'' = Some (VArr (VObj choice # choices))"
    and "map_of choice ''message'' = Some (VObj m)"
    and "map_of m ''content'' = None"
  shows "openai_reply c (Inr r) = Inr VUndefined"
  unfolding openai_reply_ok[OF assms(1,2)] openai_guard_shape[OF assms(3,4)]
  using assms(5) by simp

text \<open>A reply that is \<^verbatim>\<open>null\<close> has no properties to read.\<close>

lemma gemini_reply_null:
  assumes "response_ok r" and "json r = Inr VNull"
  shows "gemini_reply c (Inr r) = Inl TypeError"
  unfolding gemini_reply_ok[OF assms]
  by (simp add: gemini_guard_def truthy_at_def gt0_at_def)

text \<open>
  C4, as the code has it. On a response with a status from 200 to 299 whose body is a JSON
  object, the Gemini adapter fails with the invalid-format error when
  \<^verbatim>\<open>candidates\<close> is absent or an empty list, when \<^verbatim>\<open>candidates[0].content\<close> is
  absent, and when \<^verbatim>\<open>candidates[0].content.parts\<close> is absent or an empty list; the
  OpenAI adapter does when \<^verbatim>\<open>choices\<close> is absent or an empty list and when
  \<^verbatim>\<open>choices[0].message\<close> is absent. When the nested text is present and a string, the
  empty string included, the call returns that string unchanged.
\<close>

theorem reply_text_or_invalid_format:
  assumes "response_ok r" and "json r = Inr (VObj kvs)" and "fetch e rq = Inr r"
  shows "(sent (getAIResponse e h a u f) = [rq]
            \<and> (map_of kvs ''candidates'' = None \<or> map_of kvs ''candidates'' = Some (VArr []))
          \<longrightarrow> settled (getAIResponse e h a u f) = Inl InvalidFormat)
       \<and> (sent (getAIResponse e h a u f) = [rq]
            \<and> map_of kvs ''candidates'' = Some (VArr (VObj cand # cands))
            \<and> map_of cand ''content'' = None
          \<longrightarrow> settled (getAIResponse e h a u f) = Inl InvalidFormat)
       \<and> (sent (getAIResponse e h a u f) = [rq]
            \<and> map_of kvs ''candidates'' = Some (VArr (VObj cand # cands))
            \<and> map_of cand ''content'' = Some (VObj ct)
            \<and> (map_of ct ''parts'' = None \<or> map_of ct ''parts'' = Some (VArr []))
          \<longrightarrow> settled (getAIResponse e h a u f) = Inl InvalidFormat)
       \<and> (sent (getAIResponse e h a u f) = [rq]
            \<and> map_of kvs ''candidates'' = Some (VArr (VObj cand # cands))
            \<and> map_of cand ''content'' = Some (VObj ct)
            \<and> map_of ct ''parts'' = Some (VArr (VObj p # ps))
            \<and> map_of p ''text'' = Some (VStr s)
          \<longrightarrow> settled (getAIResponse e h a u f) = Inr (VStr s))
       \<and> (sent (getOpenAIResponse e h a u) = [rq]
            \<and> (map_of kvs ''choices'' = None \<or> map_of kvs ''choices'' = Some (VArr []))
          \<longrightarrow> settled (getOpenAIResponse e h a u) = Inl InvalidFormat)
       \<and> (sent (getOpenAIResponse e h a u) = [rq]
            \<and> map_of kvs ''choices'' = Some (VArr (VObj choice # choices))
            \<and> map_of choice ''message'' = None
          \<longrightarrow> settled (getOpenAIResponse e h a u) = Inl InvalidFormat)
       \<and> (sent (getOpenAIResponse e h a u) = [rq]
            \<and> map_of kvs ''choices'' = Some (VArr (VObj choice # choices))
            \<and> map_of choice ''message'' = Some (VObj m)
            \<and> map_of m ''content'' = Some (VStr s)
          \<longrightarrow> settled (getOpenAIResponse e h a u) = Inr (VStr s))"
proof (intro conjI impI)
  assume A: "sent (getAIResponse e h a u f) = [rq]
      \<and> (map_of kvs ''candidates'' = None \<or> map_of kvs ''candidates'' = Some (VArr []))"
  then have "gemini_guard (coerce_gt0 e) (VObj kvs) = Inr False"
    by (intro gemini_guard_no_candidates) blast
  with A show "settled (getAIResponse e h a u f) = Inl InvalidFormat"
    by (simp add: getAIResponse_settled assms(3) gemini_reply_invalid[OF assms(1,2)])
next
  assume A: "sent (getAIResponse e h a u f) = [rq]
      \<and> map_of kvs ''candidates'' = Some (VArr (VObj cand # cands))
      \<and> map_of cand ''content'' = None"
  then have "gemini_guard (coerce_gt0 e) (VObj kvs) = Inr False"
    by (intro gemini_guard_no_content) blast+
  with A show "settled (getAIResponse e h a u f) = Inl InvalidFormat"
    by (simp add: getAIResponse_settled assms(3) gemini_reply_invalid[OF assms(1,2)])
next
  assume A: "sent (getAIResponse e h a u f) = [rq]
      \<and> map_of kvs ''candidates'' = Some (VArr (VObj cand # cands))
      \<and> map_of cand ''content'' = Some (VObj ct)
      \<and> (map_of ct ''parts'' = None \<or> map_of ct ''parts'' = Some (VArr []))"
  then have "gemini_guard (coerce_gt0 e) (VObj kvs) = Inr False"
    by (intro gemini_guard_no_parts) blast+
  with A show "settled (getAIResponse e h a u f) = Inl InvalidFormat"
    by (simp add: getAIResponse_settled assms(3) gemini_reply_invalid[OF assms(1,2)])
next
  assume A: "sent (getAIResponse e h a u f) = [rq]
      \<and> map_of kvs ''candidates'' = Some (VArr (VObj cand # cands))
      \<and> map_of cand ''content'' = Some (VObj ct)
      \<and> map_of ct ''parts'' = Some (VArr (VObj p # ps))
      \<and> map_of p ''text'' = Some (VStr s)"
  then have "gemini_reply (coerce_gt0 e) (Inr r) = Inr (VStr s)"
    by (intro gemini_reply_text[OF assms(1,2)]) blast+
  with A show "settled (getAIResponse e h a u f) = Inr (VStr s)"
    by (simp add: getAIResponse_settled assms(3))
next
  assume B: "sent (getOpenAIResponse e h a u) = [rq]
      \<and> (map_of kvs ''choices'' = None \<or> map_of kvs ''choices'' = Some (VArr []))"
  then have "openai_guard (coerce_gt0 e) (VObj kvs) = Inr False"
    by (intro openai_guard_no_choices) blast
  with B show "settled (getOpenAIResponse e h a u) = Inl InvalidFormat"
    by (simp add: getOpenAIResponse_settled assms(3) openai_reply_invalid[OF assms(1,2)])
next
  assume B: "sent (getOpenAIResponse e h a u) = [rq]
      \<and> map_of kvs ''choices'' = Some (VArr (VObj choice # choices))
      \<and> map_of choice ''message'' = None"
  then have "openai_guard (coerce_gt0 e) (VObj kvs) = Inr False"
    by (intro openai_guard_no_message) blast+
  with B show "settled (getOpenAIResponse e h a u) = Inl InvalidFormat"
    by (simp add: getOpenAIResponse_settled assms(3) openai_reply_invalid[OF assms(1,2)])
next
  assume B: "sent (getOpenAIResponse e h a u) = [rq]
      \<and> map_of kvs ''choices'' = Some (VArr (VObj choice # choices))
      \<and> map_of choice ''message'' = Some (VObj m)
      \<and> map_of m ''content'' = Some (VStr s)"
  then have "openai_reply (coerce_gt0 e) (Inr r) = Inr (VStr s)"
    by (intro openai_reply_text[OF assms(1,2)]) blast+
  with B show "settled (getOpenAIResponse e h a u) = Inr (VStr s)"
    by (simp add: getOpenAIResponse_settled assms(3))
qed

theorem reply_text_or_invalid_format_witness:
  "settled (getAIResponse
      (answering \<lparr>status = 200, json = Inr (VObj [(''promptFeedback'', VObj [])])\<rparr>)
      [[]] 0 ''hello'' False) = Inl InvalidFormat
   \<and> settled (getAIResponse
      (answering \<lparr>status = 200,
         json = Inr (VObj [(''candidates'', VArr [VObj [(''finishReason'', VStr ''SAFETY'')]])])\<rparr>)
      [[]] 0 ''hello'' False) = Inl InvalidFormat
   \<and> settled (getAIResponse
      (answering \<lparr>status = 200,
         json = Inr (VObj [(''candidates'', VArr [VObj [(''content'', VObj [(''role'', VStr ''model'')])]])])\<rparr>)
      [[]] 0 ''hello'' False) = Inl InvalidFormat
   \<and> settled (getAIResponse
      (answering \<lparr>status = 200,
         json = Inr (VObj [(''candidates'',
                  VArr [VObj [(''content'', VObj [(''parts'', VArr [VObj [(''text'', VStr '''')]]),
                                                  (''role'', VStr ''model'')]),
                              (''finishReason'', VStr ''STOP'')]])])\<rparr>)
      [[]] 0 ''hello'' False) = Inr (VStr '''')
   \<and> settled (getOpenAIResponse
      (answering \<lparr>status = 200, json = Inr (VObj [(''choices'', VArr [])])\<rparr>)
      [[]] 0 ''hello'') = Inl InvalidFormat
   \<and> settled (getOpenAIResponse
      (answering \<lparr>status = 200,
         json = Inr (VObj [(''choices'', VArr [VObj [(''index'', VNum (Fin 0))]])])\<rparr>)
      [[]] 0 ''hello'') = Inl InvalidFormat
   \<and> settled (getOpenAIResponse
      (answering \<lparr>status = 200,
         json = Inr (VObj [(''choices'',
                  VArr [VObj [(''index'', VNum (Fin 0)),
                              (''message'', VObj [(''role'', VStr ''assistant''),
                                                  (''content'', VStr ''Restart the router.'')])]])])\<rparr>)
      [[]] 0 ''hello'') = Inr (VStr ''Restart the router.'')"
proof -
  let ?r0 = "\<lparr>status = 200, json = Inr (VObj [(''promptFeedback'', VObj [])])\<rparr>"
  let ?rc = "\<lparr>status = 200,
         json = Inr (VObj [(''candidates'', VArr [VObj [(''finishReason'', VStr ''SAFETY'')]])])\<rparr>"
  let ?r1 = "\<lparr>status = 200,
         json = Inr (VObj [(''candidates'', VArr [VObj [(''content'', VObj [(''role'', VStr ''model'')])]])])\<rparr>"
  let ?r2 = "\<lparr>status = 200,
         json = Inr (VObj [(''candidates'',
                  VArr [VObj [(''content'', VObj [(''parts'', VArr [VObj [(''text'', VStr '''')]]),
                                                  (''role'', VStr ''model'')]),
                              (''finishReason'', VStr ''STOP'')]])])\<rparr>"
  let ?re = "\<lparr>status = 200, json = Inr (VObj [(''choices'', VArr [])])\<rparr>"
  let ?r3 = "\<lparr>status = 200,
         json = Inr (VObj [(''choices'', VArr [VObj [(''index'', VNum (Fin 0))]])])\<rparr>"
  let ?r4 = "\<lparr>status = 200,
         json = Inr (VObj [(''choices'',
                  VArr [VObj [(''index'', VNum (Fin 0)),
                              (''message'', VObj [(''role'', VStr ''assistant''),
                                                  (''content'', VStr ''Restart the router.'')])]])])\<rparr>"
  have ok: "response_ok ?r1" "response_ok ?r2" "response_ok ?r3" "response_ok ?r4"
    "response_ok ?r0" "response_ok ?rc" "response_ok ?re"
    by (simp_all add: response_ok_def)
  have 0: "settled (getAIResponse (answering ?r0) [[]] 0 ''hello'' False) = Inl InvalidFormat"
    using reply_text_or_invalid_format[OF ok(5) _ fetch_answering,
        where rq = "hd (sent (getAIResponse (answering ?r0) [[]] 0 ''hello'' False))" and h = "[[]]"
          and a = 0 and u = "''hello''" and f = False]
      sent_empty_history(1)[of "answering ?r0" "''hello''" False]
    by simp
  have c: "settled (getAIResponse (answering ?rc) [[]] 0 ''hello'' False) = Inl InvalidFormat"
    using reply_text_or_invalid_format[OF ok(6) _ fetch_answering,
        where rq = "hd (sent (getAIResponse (answering ?rc) [[]] 0 ''hello'' False))" and h = "[[]]"
          and a = 0 and u = "''hello''" and f = False
          and cand = "[(''finishReason'', VStr ''SAFETY'')]" and cands = "[]"]
      sent_empty_history(1)[of "answering ?rc" "''hello''" False]
    by simp
  have 1: "settled (getAIResponse (answering ?r1) [[]] 0 ''hello'' False) = Inl InvalidFormat"
    using reply_text_or_invalid_format[OF ok(1) _ fetch_answering,
        where rq = "hd (sent (getAIResponse (answering ?r1) [[]] 0 ''hello'' False))" and h = "[[]]"
          and a = 0 and u = "''hello''" and f = False
          and cand = "[(''content'', VObj [(''role'', VStr ''model'')])]" and cands = "[]"
          and ct = "[(''role'', VStr ''model'')]"]
      sent_empty_history(1)[of "answering ?r1" "''hello''" False]
    by simp
  have 2: "settled (getAIResponse (answering ?r2) [[]] 0 ''hello'' False) = Inr (VStr '''')"
    using reply_text_or_invalid_format[OF ok(2) _ fetch_answering,
        where rq = "hd (sent (getAIResponse (answering ?r2) [[]] 0 ''hello'' False))" and h = "[[]]"
          and a = 0 and u = "''hello''" and f = False
          and cand = "[(''content'', VObj [(''parts'', VArr [VObj [(''text'', VStr '''')]]),
                                           (''role'', VStr ''model'')]),
                       (''finishReason'', VStr ''STOP'')]"
          and cands = "[]"
          and ct = "[(''parts'', VArr [VObj [(''text'', VStr '''')]]), (''role'', VStr ''model'')]"
          and p = "[(''text'', VStr '''')]" and ps = "[]" and s = "''''"]
      sent_empty_history(1)[of "answering ?r2" "''hello''" False]
    by simp
  have e: "settled (getOpenAIResponse (answering ?re) [[]] 0 ''hello'') = Inl InvalidFormat"
    using reply_text_or_invalid_format[OF ok(7) _ fetch_answering,
        where rq = "hd (sent (getOpenAIResponse (answering ?re) [[]] 0 ''hello''))" and h = "[[]]"
          and a = 0 and u = "''hello''"]
      sent_empty_history(2)[of "answering ?re" "''hello''"]
    by simp
  have 3: "settled (getOpenAIResponse (answering ?r3) [[]] 0 ''hello'') = Inl InvalidFormat"
    using reply_text_or_invalid_format[OF ok(3) _ fetch_answering,
        where rq = "hd (sent (getOpenAIResponse (answering ?r3) [[]] 0 ''hello''))" and h = "[[]]"
          and a = 0 and u = "''hello''" and choice = "[(''index'', VNum (Fin 0))]" and choices = "[]"]
      sent_empty_history(2)[of "answering ?r3" "''hello''"]
    by simp
  have 4: "settled (getOpenAIResponse (answering ?r4) [[]] 0 ''hello'') = Inr (VStr ''Restart the router.'')"
    using reply_text_or_invalid_format[OF ok(4) _ fetch_answering,
        where rq = "hd (sent (getOpenAIResponse (answering ?r4) [[]] 0 ''hello''))" and h = "[[]]"
          and a = 0 and u = "''hello''"
          and choice = "[(''index'', VNum (Fin 0)),
                         (''message'', VObj [(''role'', VStr ''assistant''),
                                             (''content'', VStr ''Restart the router.'')])]"
          and choices = "[]"
          and m = "[(''role'', VStr ''assistant''), (''content'', VStr ''Restart the router.'')]"
          and s = "''Restart the router.''"]
      sent_empty_history(2)[of "answering ?r4" "''hello''"]
    by simp
  from 0 c 1 2 e 3 4 show ?thesis by blast
qed

text \<open>
  C4, as the claim states it, fails: a reply whose nested text is the empty string is
  returned as a success value by both adapters.
\<close>

theorem empty_text_is_returned:
  "settled (getAIResponse
      (answering \<lparr>status = 200,
         json = Inr (VObj [(''candidates'',
                  VArr [VObj [(''content'', VObj [(''parts'', VArr [VObj [(''text'', VStr '''')]])])]])])\<rparr>)
      [[]] 0 ''hello'' False) = Inr (VStr '''')
   \<and> settled (getOpenAIResponse
      (answering \<lparr>status = 200,
         json = Inr (VObj [(''choices'',
                  VArr [VObj [(''message'', VObj [(''content'', VStr '''')])]])])\<rparr>)
      [[]] 0 ''hello'') = Inr (VStr '''')"
  by (simp add: getAIResponse_def gemini_payload_def getOpenAIResponse_def openai_payload_def
      alloc_def push_def Let_def answering_def gemini_reply_def openai_reply_def response_ok_def
      gemini_guard_def openai_guard_def truthy_at_def gt0_at_def)

text \<open>
  C5. When the response to the request has a status outside 200 to 299, each adapter
  fails with the HTTP failure that carries exactly that status. The body is not read:
  the result is the same whatever \<open>json r\<close> holds, also when the body is no JSON at all.
\<close>

theorem http_failure_carries_status:
  assumes "\<not> response_ok r" and "fetch e rq = Inr r"
  shows "(sent (getAIResponse e h a u f) = [rq]
          \<longrightarrow> settled (getAIResponse e h a u f) = Inl (HttpFailure (status r)))
       \<and> (sent (getOpenAIResponse e h a u) = [rq]
          \<longrightarrow> settled (getOpenAIResponse e h a u) = Inl (HttpFailure (status r)))"
proof (intro conjI impI)
  assume "sent (getAIResponse e h a u f) = [rq]"
  then show "settled (getAIResponse e h a u f) = Inl (HttpFailure (status r))"
    by (simp add: getAIResponse_settled assms(2) gemini_reply_not_ok[OF assms(1)])
next
  assume "sent (getOpenAIResponse e h a u) = [rq]"
  then show "settled (getOpenAIResponse e h a u) = Inl (HttpFailure (status r))"
    by (simp add: getOpenAIResponse_settled assms(2) openai_reply_not_ok[OF assms(1)])
qed

theorem http_failure_carries_status_witness:
  "settled (getAIResponse (answering \<lparr>status = 500, json = Inl SyntaxError\<rparr>)
      [[]] 0 ''hello'' False) = Inl (HttpFailure 500)
   \<and> settled (getOpenAIResponse
      (answering \<lparr>status = 404,
         json = Inr (VObj [(''choices'',
                  VArr [VObj [(''message'', VObj [(''content'', VStr ''Restart the router.'')])]])])\<rparr>)
      [[]] 0 ''hello'') = Inl (HttpFailure 404)"
proof -
  let ?r1 = "\<lparr>status = 500, json = Inl SyntaxError\<rparr>"
  let ?r2 = "\<lparr>status = 404,
         json = Inr (VObj [(''choices'',
                  VArr [VObj [(''message'', VObj [(''content'', VStr ''Restart the router.'')])]])])\<rparr>"
  have bad: "\<not> response_ok ?r1" "\<not> response_ok ?r2"
    by (simp_all add: response_ok_def)
  have 1: "settled (getAIResponse (answering ?r1) [[]] 0 ''hello'' False) = Inl (HttpFailure 500)"
    using http_failure_carries_status[OF bad(1) fetch_answering,
        where rq = "hd (sent (getAIResponse (answering ?r1) [[]] 0 ''hello'' False))" and h = "[[]]"
          and a = 0 and u = "''hello''" and f = False]
      sent_empty_history(1)[of "answering ?r1" "''hello''" False]
    by simp
  have 2: "settled (getOpenAIResponse (answering ?r2) [[]] 0 ''hello'') = Inl (HttpFailure 404)"
    using http_failure_carries_status[OF bad(2) fetch_answering,
        where rq = "hd (sent (getOpenAIResponse (answering ?r2) [[]] 0 ''hello''))" and h = "[[]]"
          and a = 0 and u = "''hello''"]
      sent_empty_history(2)[of "answering ?r2" "''hello''"]
    by simp
  from 1 2 show ?thesis by blast
qed

text \<open>
  C6. When the response has a status from 200 to 299 and its body is a JSON object that
  has no \<^verbatim>\<open>candidates\<close> (for OpenAI: no \<^verbatim>\<open>choices\<close>), or has an empty list there,
  the call fails with the invalid-format error; so it returns no text.
\<close>

theorem missing_list_is_invalid_format:
  assumes "response_ok r" and "json r = Inr (VObj kvs)" and "fetch e rq = Inr r"
  shows "(sent (getAIResponse e h a u f) = [rq]
            \<and> (map_of kvs ''candidates'' = None \<or> map_of kvs ''candidates'' = Some (VArr []))
          \<longrightarrow> settled (getAIResponse e h a u f) = Inl InvalidFormat)
       \<and> (sent (getOpenAIResponse e h a u) = [rq]
            \<and> (map_of kvs ''choices'' = None \<or> map_of kvs ''choices'' = Some (VArr []))
          \<longrightarrow> settled (getOpenAIResponse e h a u) = Inl InvalidFormat)"
proof (intro conjI impI)
  assume A: "sent (getAIResponse e h a u f) = [rq]
      \<and> (map_of kvs ''candidates'' = None \<or> map_of kvs ''candidates'' = Some (VArr []))"
  then have "gemini_guard (coerce_gt0 e) (VObj kvs) = Inr False"
    by (intro gemini_guard_no_candidates) blast
  with A show "settled (getAIResponse e h a u f) = Inl InvalidFormat"
    by (simp add: getAIResponse_settled assms(3) gemini_reply_invalid[OF assms(1,2)])
next
  assume B: "sent (getOpenAIResponse e h a u) = [rq]
      \<and> (map_of kvs ''choices'' = None \<or> map_of kvs ''choices'' = Some (VArr []))"
  then have "openai_guard (coerce_gt0 e) (VObj kvs) = Inr False"
    by (intro openai_guard_no_choices) blast
  with B show "settled (getOpenAIResponse e h a u) = Inl InvalidFormat"
    by (simp add: getOpenAIResponse_settled assms(3) openai_reply_invalid[OF assms(1,2)])
qed

theorem missing_list_is_invalid_format_witness:
  "settled (getAIResponse
      (answering \<lparr>status = 200, json = Inr (VObj [(''promptFeedback'', VObj [])])\<rparr>)
      [[]] 0 ''hello'' False) = Inl InvalidFormat
   \<and> settled (getAIResponse
      (answering \<lparr>status = 200, json = Inr (VObj [(''candidates'', VArr [])])\<rparr>)
      [[]] 0 ''hello'' False) = Inl InvalidFormat
   \<and> settled (getOpenAIResponse
      (answering \<lparr>status = 200, json = Inr (VObj [])\<rparr>)
      [[]] 0 ''hello'') = Inl InvalidFormat
   \<and> settled (getOpenAIResponse
      (answering \<lparr>status = 200, json = Inr (VObj [(''choices'', VArr [])])\<rparr>)
      [[]] 0 ''hello'') = Inl InvalidFormat"
proof -
  let ?r1 = "\<lparr>status = 200, json = Inr (VObj [(''promptFeedback'', VObj [])])\<rparr>"
  let ?r2 = "\<lparr>status = 200, json = Inr (VObj [(''candidates'', VArr [])])\<rparr>"
  let ?r3 = "\<lparr>status = 200, json = Inr (VObj [])\<rparr>"
  let ?r4 = "\<lparr>status = 200, json = Inr (VObj [(''choices'', VArr [])])\<rparr>"
  have ok: "response_ok ?r1" "response_ok ?r2" "response_ok ?r3" "response_ok ?r4"
    by (simp_all add: response_ok_def)
  have 1: "settled (getAIResponse (answering ?r1) [[]] 0 ''hello'' False) = Inl InvalidFormat"
    using missing_list_is_invalid_format[OF ok(1) _ fetch_answering,
        where rq = "hd (sent (getAIResponse (answering ?r1) [[]] 0 ''hello'' False))" and h = "[[]]"
          and a = 0 and u = "''hello''" and f = False]
      sent_empty_history(1)[of "answering ?r1" "''hello''" False]
    by simp
  have 2: "settled (getAIResponse (answering ?r2) [[]] 0 ''hello'' False) = Inl InvalidFormat"
    using missing_list_is_invalid_format[OF ok(2) _ fetch_answering,
        where rq = "hd (sent (getAIResponse (answering ?r2) [[]] 0 ''hello'' False))" and h = "[[]]"
          and a = 0 and u = "''hello''" and f = False]
      sent_empty_history(1)[of "answering ?r2" "''hello''" False]
    by simp
  have 3: "settled (getOpenAIResponse (answering ?r3) [[]] 0 ''hello'') = Inl InvalidFormat"
    using missing_list_is_invalid_format[OF ok(3) _ fetch_answering,
        where rq = "hd (sent (getOpenAIResponse (answering ?r3) [[]] 0 ''hello''))" and h = "[[]]"
          and a = 0 and u = "''hello''"]
      sent_empty_history(2)[of "answering ?r3" "''hello''"]
    by simp
  have 4: "settled (getOpenAIResponse (answering ?r4) [[]] 0 ''hello'') = Inl InvalidFormat"
    using missing_list_is_invalid_format[OF ok(4) _ fetch_answering,
        where rq = "hd (sent (getOpenAIResponse (answering ?r4) [[]] 0 ''hello''))" and h = "[[]]"
          and a = 0 and u = "''hello''"]
      sent_empty_history(2)[of "answering ?r4" "''hello''"]
    by simp
  from 1 2 3 4 show ?thesis by blast
qed



section \<open>The persona, the caller's history and the request body\<close>




text \<open>What a call does to the store: it only appends arrays of its own.\<close>

lemma gemini_payload_frame: "take (length h) (fst (gemini_payload h a u f)) = h"
proof (cases "a < length h")
  case False
  then show ?thesis by (simp add: gemini_payload_def)
next
  case True
  show ?thesis
  proof (cases "map_err gemini_turn (h ! a)")
    case (Inl err)
    with True show ?thesis by (simp add: gemini_payload_def)
  next
    case (Inr ts)
    show ?thesis by (simp add: gemini_payload_mapped[OF True Inr])
  qed
qed

lemma openai_payload_frame: "take (length h) (fst (openai_payload h a u)) = h"
proof (cases "a < length h")
  case False
  then show ?thesis by (simp add: openai_payload_def)
next
  case True
  show ?thesis
  proof (cases "map_err openai_turn (h ! a)")
    case (Inl err)
    with True show ?thesis by (simp add: openai_payload_def)
  next
    case (Inr ts)
    show ?thesis by (simp add: openai_payload_mapped[OF True Inr])
  qed
qed

lemma heap_after_payload:
  "heap_after (getAIResponse e h a u f) = fst (gemini_payload h a u f)"
  "heap_after (getOpenAIResponse e h a u) = fst (openai_payload h a u)"
  by (simp_all add: getAIResponse_def getOpenAIResponse_def Let_def split: prod.splits sum.splits)

text \<open>
  C9. After a call of either adapter every array that was in the store before the call,
  the caller's history among them, holds what it held: the arrays the call builds are new
  ones, and the user's turn is pushed onto a new one.
\<close>

theorem history_store_unchanged:
  "take (length h) (heap_after (getAIResponse e h a u f)) = h
   \<and> take (length h) (heap_after (getOpenAIResponse e h a u)) = h
   \<and> (a < length h \<longrightarrow>
        heap_after (getAIResponse e h a u f) ! a = h ! a
      \<and> heap_after (getOpenAIResponse e h a u) ! a = h ! a)"
proof (intro conjI impI)
  show A: "take (length h) (heap_after (getAIResponse e h a u f)) = h"
    by (simp add: heap_after_payload gemini_payload_frame)
  show B: "take (length h) (heap_after (getOpenAIResponse e h a u)) = h"
    by (simp add: heap_after_payload openai_payload_frame)
  assume a: "a < length h"
  have "take (length h) (heap_after (getAIResponse e h a u f)) ! a = h ! a"
    by (simp only: A)
  with a show "heap_after (getAIResponse e h a u f) ! a = h ! a"
    by simp
  have "take (length h) (heap_after (getOpenAIResponse e h a u)) ! a = h ! a"
    by (simp only: B)
  with a show "heap_after (getOpenAIResponse e h a u) ! a = h ! a"
    by simp
qed

theorem history_store_unchanged_witness:
  "heap_after (getAIResponse offline
      [[VStr ''another array''],
       [js_msg \<lparr>msg_role = ''user'', msg_text = ''hi'', msg_model = None\<rparr>,
        js_msg \<lparr>msg_role = ''model'', msg_text = ''hello'', msg_model = Some ''gemini''\<rparr>]]
      1 ''it is slow'' False) ! 1 =
     [js_msg \<lparr>msg_role = ''user'', msg_text = ''hi'', msg_model = None\<rparr>,
      js_msg \<lparr>msg_role = ''model'', msg_text = ''hello'', msg_model = Some ''gemini''\<rparr>]
   \<and> heap_after (getOpenAIResponse offline
      [[VStr ''another array''],
       [js_msg \<lparr>msg_role = ''user'', msg_text = ''hi'', msg_model = None\<rparr>,
        js_msg \<lparr>msg_role = ''model'', msg_text = ''hello'', msg_model = Some ''gemini''\<rparr>]]
      1 ''it is slow'') ! 1 =
     [js_msg \<lparr>msg_role = ''user'', msg_text = ''hi'', msg_model = None\<rparr>,
      js_msg \<lparr>msg_role = ''model'', msg_text = ''hello'', msg_model = Some ''gemini''\<rparr>]"
  using history_store_unchanged
    [of "[[VStr ''another array''],
          [js_msg \<lparr>msg_role = ''user'', msg_text = ''hi'', msg_model = None\<rparr>,
           js_msg \<lparr>msg_role = ''model'', msg_text = ''hello'', msg_model = Some ''gemini''\<rparr>]]"
        offline 1 "''it is slow''" False]
  by simp

text \<open>The body that is sent, for a history at a valid address.\<close>

lemma gemini_body_sent:
  assumes "a < length h"
  shows "map req_body (sent (getAIResponse e h a u f)) =
     (case map_err gemini_turn (h ! a) of
        Inl err \<Rightarrow> []
      | Inr ts \<Rightarrow>
          [VObj [(''contents'', VArr (if f then [initialPrompt, user_turn u] else ts @ [user_turn u])),
                 (''generationConfig'', generationConfig)]])"
proof (cases "map_err gemini_turn (h ! a)")
  case (Inl err)
  with assms show ?thesis by (simp add: getAIResponse_def gemini_payload_def)
next
  case (Inr ts)
  show ?thesis
    by (simp add: getAIResponse_def gemini_payload_mapped[OF assms Inr] Inr gemini_request_def Let_def)
qed

lemma openai_body_sent:
  assumes "a < length h"
  shows "map req_body (sent (getOpenAIResponse e h a u)) =
     (case map_err openai_turn (h ! a) of
        Inl err \<Rightarrow> []
      | Inr ts \<Rightarrow>
          [VObj [(''model'', VStr ''gpt-3.5-turbo''),
                 (''messages'', VArr (system_message # ts @ [user_message u])),
                 (''temperature'', VNum (Fin (7 / 10))),
                 (''max_tokens'', VNum (Fin 500))]])"
proof (cases "map_err openai_turn (h ! a)")
  case (Inl err)
  with assms show ?thesis by (simp add: getOpenAIResponse_def openai_payload_def)
next
  case (Inr ts)
  show ?thesis
    by (simp add: getOpenAIResponse_def openai_payload_mapped[OF assms Inr] Inr openai_request_def Let_def)
qed

text \<open>
  C10. The request body depends on nothing but the arguments. Two calls of the same
  adapter with the same user text and the same flag, on histories that hold the same
  elements, send the same bodies, whatever else the two stores hold, wherever the
  histories lie in them, and whatever the keys, the network and the runtime of the two
  surroundings are.
\<close>

theorem request_body_determined_by_arguments:
  assumes "a1 < length h1" and "a2 < length h2" and "h1 ! a1 = h2 ! a2"
  shows "map req_body (sent (getAIResponse e1 h1 a1 u f)) =
           map req_body (sent (getAIResponse e2 h2 a2 u f))
       \<and> map req_body (sent (getOpenAIResponse e1 h1 a1 u)) =
           map req_body (sent (getOpenAIResponse e2 h2 a2 u))"
  by (simp add: gemini_body_sent[OF assms(1)] gemini_body_sent[OF assms(2)]
      openai_body_sent[OF assms(1)] openai_body_sent[OF assms(2)] assms(3))

theorem request_body_determined_by_arguments_witness:
  "map req_body (sent (getAIResponse offline
      [[js_msg \<lparr>msg_role = ''user'', msg_text = ''hi'', msg_model = None\<rparr>]]
      0 ''it is slow'' False)) =
   map req_body (sent (getAIResponse
      (answering \<lparr>status = 503, json = Inl SyntaxError\<rparr>)
      [[VStr ''another array''],
       [js_msg \<lparr>msg_role = ''user'', msg_text = ''hi'', msg_model = None\<rparr>]]
      1 ''it is slow'' False))
   \<and> map req_body (sent (getOpenAIResponse offline
      [[js_msg \<lparr>msg_role = ''user'', msg_text = ''hi'', msg_model = None\<rparr>]]
      0 ''it is slow'')) =
   map req_body (sent (getOpenAIResponse
      (answering \<lparr>status = 503, json = Inl SyntaxError\<rparr>)
      [[VStr ''another array''],
       [js_msg \<lparr>msg_role = ''user'', msg_text = ''hi'', msg_model = None\<rparr>]]
      1 ''it is slow''))"
  using request_body_determined_by_arguments
    [of 0 "[[js_msg \<lparr>msg_role = ''user'', msg_text = ''hi'', msg_model = None\<rparr>]]"
        1 "[[VStr ''another array''],
            [js_msg \<lparr>msg_role = ''user'', msg_text = ''hi'', msg_model = None\<rparr>]]"
        offline "''it is slow''" False
        "answering \<lparr>status = 503, json = Inl SyntaxError\<rparr>"]
  by simp

end
